theory Spec2Isabelle
  imports Main
begin

section \<open>Data model\<close>

text \<open>
  The script \<^verbatim>\<open>src/static/app.js\<close> keeps two singletons: \<^verbatim>\<open>AppState\<close> (the capability
  snapshot and the calls to the REST backend) and \<^verbatim>\<open>UI\<close> (four element handles and the
  render methods).  Both are embedded here over one explicit state, \<open>world\<close>.

  JavaScript objects have identity.  Capability objects and snapshot objects therefore
  live in a store indexed by references, and \<^verbatim>\<open>AppState.capabilities\<close> is a reference to
  the current snapshot object.  A snapshot object is the list of its own properties in
  enumeration order, each property holding the reference of a capability object.
  Strings are byte strings (UTF-8); the strict comparison \<^verbatim>\<open>!==\<close> on strings is
  inequality of the lists.

  A capability is the JSON object the backend sends.  The members the script tests
  before use (\<^verbatim>\<open>industry_verticals\<close>, \<^verbatim>\<open>capacity\<close>, \<^verbatim>\<open>consultants\<close>) may be missing;
  the capacity is a natural number of hours, for which \<^verbatim>\<open>details.capacity || 0\<close> is the
  capacity, or 0 when it is missing.
\<close>

type_synonym ref = nat

record capability =
  description :: string
  practice_area :: string
  industry_verticals :: "string list option"
  capacity :: "nat option"
  consultants :: "string list option"

text \<open>A card is the \<^verbatim>\<open>div\<close> built by \<^verbatim>\<open>createCapabilityCard\<close>: its class and the markup
  assigned to its \<^verbatim>\<open>innerHTML\<close>.\<close>

record card =
  card_className :: string
  card_innerHTML :: string

datatype list_child = Card card | Markup string

record select_option =
  option_value :: string
  option_textContent :: string

record form =
  submit_listeners :: nat

record message_area =
  textContent :: "string option"
  className :: string
  hidden :: bool

text \<open>A handle of \<^verbatim>\<open>UI.elements\<close> is \<open>None\<close> for \<^verbatim>\<open>null\<close>, and otherwise carries the
  content of the element it refers to.\<close>

record ui_elements =
  capabilitiesList :: "list_child list option"
  capabilitySelect :: "select_option list option"
  registerForm :: "form option"
  messageDiv :: "message_area option"

text \<open>The page the script runs in: what \<^verbatim>\<open>document.getElementById\<close> finds for the four
  ids \<^verbatim>\<open>capabilities-list\<close>, \<^verbatim>\<open>capability\<close>, \<^verbatim>\<open>register-form\<close> and \<^verbatim>\<open>message\<close>.\<close>

record document =
  by_id_capabilities_list :: "list_child list option"
  by_id_capability :: "select_option list option"
  by_id_register_form :: "form option"
  by_id_message :: "message_area option"

datatype js_error = TypeError | SyntaxError

text \<open>The outcome of one request: \<^verbatim>\<open>fetch\<close> rejects, or \<^verbatim>\<open>response.json()\<close> rejects, or
  the body parses; \<open>Json ok body\<close> carries \<^verbatim>\<open>response.ok\<close>.\<close>

datatype 'a response = FetchRejected | BodyRejected | Json bool 'a

text \<open>The body of a register or unregister response, a JSON object whose members
  \<^verbatim>\<open>message\<close> and \<^verbatim>\<open>detail\<close> may be missing.\<close>

record result =
  message :: "string option"
  detail :: "string option"

record world =
  objects :: "ref \<rightharpoonup> capability"
  snapshots :: "ref \<rightharpoonup> (string \<times> ref) list"
  next_ref :: ref
  capabilities :: ref
  elements :: ui_elements
  console :: "(string \<times> js_error) list"
  clock :: nat
  timers :: "nat list"

text \<open>The state when the script has been loaded: \<^verbatim>\<open>capabilities: {}\<close> and four \<^verbatim>\<open>null\<close>
  handles.\<close>

definition initial_world :: world where
  "initial_world =
     \<lparr>objects = Map.empty, snapshots = [0 \<mapsto> []], next_ref = 1, capabilities = 0,
      elements = \<lparr>capabilitiesList = None, capabilitySelect = None, registerForm = None,
                  messageDiv = None\<rparr>,
      console = [], clock = 0, timers = []\<rparr>"

section \<open>Reading the snapshot\<close>

definition own_properties :: "world \<Rightarrow> ref \<Rightarrow> (string \<times> ref) list" where
  "own_properties w r = (case snapshots w r of None \<Rightarrow> [] | Some es \<Rightarrow> es)"

text \<open>\<^verbatim>\<open>Object.keys\<close> and \<^verbatim>\<open>Object.entries\<close> of a snapshot object.  A property whose
  reference is not in the store has no entry; the operations below never create one.\<close>

definition object_keys :: "world \<Rightarrow> ref \<Rightarrow> string list" where
  "object_keys w r = map fst (own_properties w r)"

definition object_entries :: "world \<Rightarrow> ref \<Rightarrow> (string \<times> capability) list" where
  "object_entries w r =
     List.map_filter (\<lambda>(k, a). map_option (Pair k) (objects w a)) (own_properties w r)"

text \<open>\<^verbatim>\<open>this.capabilities[capability]\<close>, when \<^verbatim>\<open>capability\<close> is an own property.\<close>

definition lookup_ref :: "world \<Rightarrow> string \<Rightarrow> ref option" where
  "lookup_ref w capability = map_of (own_properties w (capabilities w)) capability"

definition lookup_capability :: "world \<Rightarrow> string \<Rightarrow> capability option" where
  "lookup_capability w capability =
     (case lookup_ref w capability of None \<Rightarrow> None | Some a \<Rightarrow> objects w a)"

text \<open>
  \<^verbatim>\<open>this.capabilities[capability].consultants\<close> as the two methods use it: spread into an
  array literal, or receiver of \<^verbatim>\<open>.filter\<close>.  Without an own property \<^verbatim>\<open>capability\<close> the
  lookup gives \<^verbatim>\<open>undefined\<close> (or a member of \<^verbatim>\<open>Object.prototype\<close>, which has no
  \<^verbatim>\<open>consultants\<close>), and a capability object may lack \<^verbatim>\<open>consultants\<close>; every such use
  throws a \<^verbatim>\<open>TypeError\<close>.
\<close>

definition target_consultants :: "world \<Rightarrow> string \<Rightarrow> js_error + string list" where
  "target_consultants w capability =
     (case lookup_capability w capability of
        None \<Rightarrow> Inl TypeError
      | Some details \<Rightarrow>
          (case consultants details of None \<Rightarrow> Inl TypeError | Some cs \<Rightarrow> Inr cs))"

text \<open>Defining a property on an object literal: an existing key keeps its position, a
  new one goes last.  The two write methods get here with an existing key only.\<close>

fun set_property :: "string \<Rightarrow> ref \<Rightarrow> (string \<times> ref) list \<Rightarrow> (string \<times> ref) list" where
  "set_property k v [] = [(k, v)]"
| "set_property k v ((k', v') # es) =
     (if k' = k then (k, v) # es else (k', v') # set_property k v es)"

text \<open>
  The assignment both write methods make,
  \<^verbatim>\<open>this.capabilities = {...this.capabilities, [capability]: {...this.capabilities[capability], consultants: cs}}\<close>:
  a new capability object, a new snapshot object, and the other properties copied by
  reference.
\<close>

definition assign_consultants :: "string \<Rightarrow> string list \<Rightarrow> world \<Rightarrow> world" where
  "assign_consultants capability cs w =
     (case lookup_capability w capability of
        None \<Rightarrow> w
      | Some details \<Rightarrow>
          (let inner = next_ref w; outer = Suc inner in
           w\<lparr>objects := (objects w)(inner \<mapsto> details\<lparr>consultants := Some cs\<rparr>),
             snapshots := (snapshots w)(outer \<mapsto>
               set_property capability inner (own_properties w (capabilities w))),
             next_ref := Suc outer,
             capabilities := outer\<rparr>))"

section \<open>UI\<close>

fun join :: "string \<Rightarrow> string list \<Rightarrow> string" where
  "join sep [] = []"
| "join sep [x] = x"
| "join sep (x # y # ys) = x @ sep @ join sep (y # ys)"

definition digit :: "nat \<Rightarrow> char" where
  "digit d = ''0123456789'' ! d"

text \<open>The numbers a card prints are the capacity and the number of consultants.  Both
  are taken as natural numbers, which JavaScript prints in decimal digits as long as
  the number is below \<open>10\<^sup>2\<^sup>1\<close> and a double holds it exactly.\<close>

fun number_toString :: "nat \<Rightarrow> string" where
  "number_toString n =
     (if n < 10 then [digit n] else number_toString (n div 10) @ [digit (n mod 10)])"

declare number_toString.simps [simp del]

abbreviation LF :: string where
  "LF \<equiv> [CHR 0x0A]"

text \<open>The cross mark on a removal button, U+274C.\<close>

definition cross_mark :: string where
  "cross_mark = [CHR 0xE2, CHR 0x9D, CHR 0x8C]"

definition consultant_item :: "string \<Rightarrow> string \<Rightarrow> string" where
  \<open>consultant_item name email =
     ''<li>'' @ LF @
     ''                <span class="consultant-email">'' @ email @ ''</span>'' @ LF @
     ''                <button class="delete-btn" data-capability="'' @ name @
       ''" data-email="'' @ email @ ''">'' @ cross_mark @ ''</button>'' @ LF @
     ''              </li>''\<close>

definition consultantsHTML :: "string \<Rightarrow> capability \<Rightarrow> string" where
  \<open>consultantsHTML name details =
     (case consultants details of
        None \<Rightarrow> ''<p><em>No consultants registered yet</em></p>''
      | Some cs \<Rightarrow>
          if length cs > 0 then
            ''<div class="consultants-section">'' @ LF @
            ''          <h5>Registered Consultants:</h5>'' @ LF @
            ''          <ul class="consultants-list">'' @ LF @
            ''            '' @ join [] (map (consultant_item name) cs) @ LF @
            ''          </ul>'' @ LF @
            ''        </div>''
          else ''<p><em>No consultants registered yet</em></p>'')\<close>

definition createCapabilityCard :: "string \<Rightarrow> capability \<Rightarrow> card" where
  \<open>createCapabilityCard name details =
     (let availableCapacity = (case capacity details of None \<Rightarrow> 0 | Some n \<Rightarrow> n);
          currentConsultants = (case consultants details of None \<Rightarrow> 0 | Some cs \<Rightarrow> length cs)
      in \<lparr>card_className = ''capability-card'',
          card_innerHTML =
            LF @
            ''      <h4>'' @ name @ ''</h4>'' @ LF @
            ''      <p>'' @ description details @ ''</p>'' @ LF @
            ''      <p><strong>Practice Area:</strong> '' @ practice_area details @ ''</p>'' @ LF @
            ''      <p><strong>Industry Verticals:</strong> '' @
              (case industry_verticals details of
                 None \<Rightarrow> ''Not specified''
               | Some vs \<Rightarrow> join '', '' vs) @ ''</p>'' @ LF @
            ''      <p><strong>Capacity:</strong> '' @ number_toString availableCapacity @
              '' hours/week available</p>'' @ LF @
            ''      <p><strong>Current Team:</strong> '' @ number_toString currentConsultants @
              '' consultants</p>'' @ LF @
            ''      <div class="consultants-container">'' @ LF @
            ''        '' @ consultantsHTML name details @ LF @
            ''      </div>'' @ LF @
            ''    ''\<rparr>)\<close>

definition renderCapabilities :: "ref \<Rightarrow> world \<Rightarrow> world" where
  "renderCapabilities caps w =
     (case capabilitiesList (elements w) of
        None \<Rightarrow> w
      | Some _ \<Rightarrow>
          w\<lparr>elements := (elements w)\<lparr>capabilitiesList :=
              Some (foldl (\<lambda>children (name, details).
                             children @ [Card (createCapabilityCard name details)])
                      [] (object_entries w caps))\<rparr>\<rparr>)"

definition placeholder_option :: select_option where
  "placeholder_option =
     \<lparr>option_value = [], option_textContent = ''-- Select a capability --''\<rparr>"

definition renderCapabilitySelect :: "ref \<Rightarrow> world \<Rightarrow> world" where
  "renderCapabilitySelect caps w =
     (case capabilitySelect (elements w) of
        None \<Rightarrow> w
      | Some _ \<Rightarrow>
          w\<lparr>elements := (elements w)\<lparr>capabilitySelect :=
              Some (foldl (\<lambda>options name.
                             options @ [\<lparr>option_value = name, option_textContent = name\<rparr>])
                      [placeholder_option] (object_keys w caps))\<rparr>\<rparr>)"

text \<open>\<^verbatim>\<open>setTimeout(f, 5000)\<close> records when the callback is due; the callbacks of this
  script are all the same one, which adds the class \<^verbatim>\<open>hidden\<close> to the message area.\<close>

definition showMessage :: "string option \<Rightarrow> string \<Rightarrow> world \<Rightarrow> world" where
  "showMessage msg type w =
     (case messageDiv (elements w) of
        None \<Rightarrow> w
      | Some _ \<Rightarrow>
          w\<lparr>elements := (elements w)\<lparr>messageDiv :=
               Some \<lparr>textContent = msg, className = type, hidden = False\<rparr>\<rparr>,
            timers := timers w @ [clock w + 5000]\<rparr>)"

definition showError :: "string \<Rightarrow> world \<Rightarrow> world" where
  "showError msg w =
     (case capabilitiesList (elements w) of
        None \<Rightarrow> w
      | Some _ \<Rightarrow>
          w\<lparr>elements := (elements w)\<lparr>capabilitiesList :=
               Some [Markup (''<p>'' @ msg @ ''</p>'')]\<rparr>\<rparr>)"

text \<open>The timer callback, and the passing of time up to \<open>t\<close>: every callback that is due
  runs, in the order of the calls that scheduled them.  A callback that finds the handle
  \<^verbatim>\<open>null\<close> throws inside its own task and changes nothing.\<close>

definition hide_message :: "world \<Rightarrow> world" where
  "hide_message w =
     (case messageDiv (elements w) of
        None \<Rightarrow> w
      | Some m \<Rightarrow> w\<lparr>elements := (elements w)\<lparr>messageDiv := Some (m\<lparr>hidden := True\<rparr>)\<rparr>\<rparr>)"

definition advance_to :: "nat \<Rightarrow> world \<Rightarrow> world" where
  "advance_to t w =
     foldl (\<lambda>w' due. hide_message w')
       (w\<lparr>clock := max t (clock w), timers := filter (\<lambda>due. t < due) (timers w)\<rparr>)
       (filter (\<lambda>due. due \<le> t) (timers w))"

text \<open>
  \<^verbatim>\<open>UI.init\<close>: the four handles are bound, then the submit listener is attached to the
  form.  Calling \<^verbatim>\<open>addEventListener\<close> on \<^verbatim>\<open>null\<close> throws, after the handles were assigned.
  The listener itself calls \<^verbatim>\<open>AppState.registerConsultant\<close> with the values of the two
  form fields; of the form, the state records how many listeners it has.
\<close>

definition UI_init :: "document \<Rightarrow> world \<Rightarrow> (js_error + unit) \<times> world" where
  "UI_init doc w =
     (let w1 = w\<lparr>elements :=
                  \<lparr>capabilitiesList = by_id_capabilities_list doc,
                   capabilitySelect = by_id_capability doc,
                   registerForm = by_id_register_form doc,
                   messageDiv = by_id_message doc\<rparr>\<rparr>
      in case registerForm (elements w1) of
           None \<Rightarrow> (Inl TypeError, w1)
         | Some f \<Rightarrow>
             (Inr (), w1\<lparr>elements := (elements w1)\<lparr>registerForm :=
                          Some (f\<lparr>submit_listeners := Suc (submit_listeners f)\<rparr>)\<rparr>\<rparr>))"

section \<open>AppState\<close>

definition console_error :: "string \<Rightarrow> js_error \<Rightarrow> world \<Rightarrow> world" where
  "console_error label e w = w\<lparr>console := console w @ [(label, e)]\<rparr>"

definition render :: "world \<Rightarrow> world" where
  "render w = renderCapabilitySelect (capabilities w) (renderCapabilities (capabilities w) w)"

text \<open>\<^verbatim>\<open>JSON.parse\<close> of the capability list creates one object per capability, and
  \<^verbatim>\<open>{ ...data }\<close> a snapshot object that refers to them.\<close>

fun allocate :: "(string \<times> capability) list \<Rightarrow> world \<Rightarrow> (string \<times> ref) list \<times> world" where
  "allocate [] w = ([], w)"
| "allocate ((name, details) # rest) w =
     (let a = next_ref w;
          (es, w') = allocate rest (w\<lparr>objects := (objects w)(a \<mapsto> details), next_ref := Suc a\<rparr>)
      in ((name, a) # es, w'))"

definition assign_snapshot :: "(string \<times> capability) list \<Rightarrow> world \<Rightarrow> world" where
  "assign_snapshot data w =
     (let (es, w') = allocate data w; s = next_ref w'
      in w'\<lparr>snapshots := (snapshots w')(s \<mapsto> es), next_ref := Suc s, capabilities := s\<rparr>)"

text \<open>
  Each method is its \<^verbatim>\<open>try\<close> block, which completes or throws, followed by its
  \<^verbatim>\<open>catch\<close> handler.  A method returns how it completed together with the state.

  The methods are \<^verbatim>\<open>async\<close>, and both of their \<^verbatim>\<open>await\<close>s (the fetch, the body) come
  before the first access to the state.  What follows runs without interruption, so a
  call is one step from the state in which its response is handled, given the outcome
  of the request.
\<close>

definition fetchCapabilities_try ::
    "(string \<times> capability) list response \<Rightarrow> world \<Rightarrow> (js_error + unit) \<times> world" where
  "fetchCapabilities_try outcome w =
     (case outcome of
        FetchRejected \<Rightarrow> (Inl TypeError, w)
      | BodyRejected \<Rightarrow> (Inl SyntaxError, w)
      | Json ok data \<Rightarrow> (Inr (), render (assign_snapshot data w)))"

definition fetchCapabilities ::
    "(string \<times> capability) list response \<Rightarrow> world \<Rightarrow> (js_error + unit) \<times> world" where
  "fetchCapabilities outcome w =
     (case fetchCapabilities_try outcome w of
        (Inl error, w') \<Rightarrow>
          (Inr (), showError ''Failed to load capabilities. Please try again later.''
                     (console_error ''Error fetching capabilities:'' error w'))
      | (Inr u, w') \<Rightarrow> (Inr u, w'))"

definition AppState_init ::
    "(string \<times> capability) list response \<Rightarrow> world \<Rightarrow> (js_error + unit) \<times> world" where
  "AppState_init outcome w = fetchCapabilities outcome w"

text \<open>\<^verbatim>\<open>result.detail || "An error occurred"\<close>: a missing or empty detail is falsy.\<close>

definition detail_or :: "result \<Rightarrow> string \<Rightarrow> string" where
  "detail_or r fallback =
     (case detail r of None \<Rightarrow> fallback | Some d \<Rightarrow> if d = [] then fallback else d)"

definition registerConsultant_try ::
    "string \<Rightarrow> string \<Rightarrow> result response \<Rightarrow> world \<Rightarrow> (js_error + bool) \<times> world" where
  "registerConsultant_try capability email outcome w =
     (case outcome of
        FetchRejected \<Rightarrow> (Inl TypeError, w)
      | BodyRejected \<Rightarrow> (Inl SyntaxError, w)
      | Json ok r \<Rightarrow>
          if ok then
            (case target_consultants w capability of
               Inl error \<Rightarrow> (Inl error, w)
             | Inr cs \<Rightarrow>
                 (Inr True,
                  showMessage (message r) ''success''
                    (render (assign_consultants capability (cs @ [email]) w))))
          else (Inr False, showMessage (Some (detail_or r ''An error occurred'')) ''error'' w))"

definition registerConsultant ::
    "string \<Rightarrow> string \<Rightarrow> result response \<Rightarrow> world \<Rightarrow> (js_error + bool) \<times> world" where
  "registerConsultant capability email outcome w =
     (case registerConsultant_try capability email outcome w of
        (Inl error, w') \<Rightarrow>
          (Inr False,
           showMessage (Some ''Failed to register. Please try again.'') ''error''
             (console_error ''Error registering:'' error w'))
      | (Inr b, w') \<Rightarrow> (Inr b, w'))"

definition unregisterConsultant_try ::
    "string \<Rightarrow> string \<Rightarrow> result response \<Rightarrow> world \<Rightarrow> (js_error + unit) \<times> world" where
  "unregisterConsultant_try capability email outcome w =
     (case outcome of
        FetchRejected \<Rightarrow> (Inl TypeError, w)
      | BodyRejected \<Rightarrow> (Inl SyntaxError, w)
      | Json ok r \<Rightarrow>
          if ok then
            (case target_consultants w capability of
               Inl error \<Rightarrow> (Inl error, w)
             | Inr cs \<Rightarrow>
                 (Inr (),
                  showMessage (message r) ''success''
                    (render (assign_consultants capability (filter (\<lambda>c. c \<noteq> email) cs) w))))
          else (Inr (), showMessage (Some (detail_or r ''An error occurred'')) ''error'' w))"

definition unregisterConsultant ::
    "string \<Rightarrow> string \<Rightarrow> result response \<Rightarrow> world \<Rightarrow> (js_error + unit) \<times> world" where
  "unregisterConsultant capability email outcome w =
     (case unregisterConsultant_try capability email outcome w of
        (Inl error, w') \<Rightarrow>
          (Inr (),
           showMessage (Some ''Failed to unregister. Please try again.'') ''error''
             (console_error ''Error unregistering:'' error w'))
      | (Inr u, w') \<Rightarrow> (Inr u, w'))"

text \<open>The \<^verbatim>\<open>DOMContentLoaded\<close> listener: \<^verbatim>\<open>UI.init()\<close>, then \<^verbatim>\<open>await AppState.init()\<close>.\<close>

definition on_DOMContentLoaded ::
    "document \<Rightarrow> (string \<times> capability) list response \<Rightarrow> world \<Rightarrow> (js_error + unit) \<times> world" where
  "on_DOMContentLoaded doc outcome w =
     (case UI_init doc w of
        (Inl error, w') \<Rightarrow> (Inl error, w')
      | (Inr _, w') \<Rightarrow> AppState_init outcome w')"

section \<open>The markup of a card, as the browser reads it\<close>

text \<open>
  \<^verbatim>\<open>createCapabilityCard\<close> assigns a string to \<^verbatim>\<open>innerHTML\<close>, finds the removal controls
  with \<^verbatim>\<open>querySelectorAll(".delete-btn")\<close>, and each click listener reads the control's
  \<^verbatim>\<open>data-capability\<close> and \<^verbatim>\<open>data-email\<close> attributes back with \<^verbatim>\<open>getAttribute\<close> and
  passes them to \<^verbatim>\<open>AppState.unregisterConsultant\<close>.  What the controls of a card are is
  therefore decided by the HTML fragment parser.  This section embeds the part of it
  that the markup of a card exercises: the tokenizer states for tags and attributes of
  the HTML standard, and the tree construction for properly nested elements of the
  ten kinds the template uses.  Text is passed over: the parser gives the elements
  and their attributes.  Markup outside this part (character references in attribute
  values, comments, self-closing syntax, NUL and CR inside a tag, other elements,
  elements closed out of order or implicitly) is given no meaning: the result is
  \<open>None\<close> there.
\<close>

type_synonym attributes = "(string \<times> string) list"

datatype token = StartTag string attributes | EndTag string

text \<open>The tokenizer states; a tag under construction carries whether it is an end tag,
  its name, its finished attributes, and the attribute being read.\<close>

datatype tokenizer =
    Data
  | TagOpen
  | EndTagOpen
  | TagName bool string
  | BeforeAttributeName bool string attributes
  | AttributeName bool string attributes string
  | AfterAttributeName bool string attributes string
  | BeforeAttributeValue bool string attributes string
  | AttributeValueDoubleQuoted bool string attributes string string
  | AttributeValueSingleQuoted bool string attributes string string
  | AttributeValueUnquoted bool string attributes string string
  | AfterAttributeValueQuoted bool string attributes
  | Unsupported

definition is_space :: "char \<Rightarrow> bool" where
  "is_space c \<longleftrightarrow> c = CHR 0x09 \<or> c = CHR 0x0A \<or> c = CHR 0x0C \<or> c = CHR '' ''"

definition is_alpha :: "char \<Rightarrow> bool" where
  "is_alpha c \<longleftrightarrow>
     (let n = (of_char c :: nat) in (65 \<le> n \<and> n \<le> 90) \<or> (97 \<le> n \<and> n \<le> 122))"

definition lower :: "char \<Rightarrow> char" where
  "lower c =
     (let n = (of_char c :: nat)
      in if 65 \<le> n \<and> n \<le> 90 then ''abcdefghijklmnopqrstuvwxyz'' ! (n - 65) else c)"

text \<open>A start tag keeps its attributes, an end tag drops them; an attribute whose name
  the tag already has is dropped.\<close>

definition emit_tag :: "bool \<Rightarrow> string \<Rightarrow> attributes \<Rightarrow> tokenizer \<times> token list" where
  "emit_tag closing name attrs = (Data, [if closing then EndTag name else StartTag name attrs])"

definition add_attribute :: "attributes \<Rightarrow> string \<Rightarrow> string \<Rightarrow> attributes" where
  "add_attribute attrs name v =
     (case map_of attrs name of None \<Rightarrow> attrs @ [(name, v)] | Some _ \<Rightarrow> attrs)"

text \<open>One function per state that another state reconsumes a character in.\<close>

definition in_attribute_name ::
    "bool \<Rightarrow> string \<Rightarrow> attributes \<Rightarrow> string \<Rightarrow> char \<Rightarrow> tokenizer \<times> token list" where
  "in_attribute_name e n as an c =
     (if is_space c then (AfterAttributeName e n as an, [])
      else if c = CHR ''/'' then (Unsupported, [])
      else if c = CHR ''>'' then emit_tag e n (add_attribute as an [])
      else if c = CHR ''='' then (BeforeAttributeValue e n as an, [])
      else (AttributeName e n as (an @ [lower c]), []))"

definition in_after_attribute_name ::
    "bool \<Rightarrow> string \<Rightarrow> attributes \<Rightarrow> string \<Rightarrow> char \<Rightarrow> tokenizer \<times> token list" where
  "in_after_attribute_name e n as an c =
     (if is_space c then (AfterAttributeName e n as an, [])
      else if c = CHR ''/'' then (Unsupported, [])
      else if c = CHR ''='' then (BeforeAttributeValue e n as an, [])
      else if c = CHR ''>'' then emit_tag e n (add_attribute as an [])
      else in_attribute_name e n (add_attribute as an []) [] c)"

definition in_before_attribute_name ::
    "bool \<Rightarrow> string \<Rightarrow> attributes \<Rightarrow> char \<Rightarrow> tokenizer \<times> token list" where
  "in_before_attribute_name e n as c =
     (if is_space c then (BeforeAttributeName e n as, [])
      else if c = CHR ''/'' then (Unsupported, [])
      else if c = CHR ''>'' then emit_tag e n as
      else if c = CHR ''='' then (Unsupported, [])
      else in_attribute_name e n as [] c)"

definition in_attribute_value_unquoted ::
    "bool \<Rightarrow> string \<Rightarrow> attributes \<Rightarrow> string \<Rightarrow> string \<Rightarrow> char \<Rightarrow> tokenizer \<times> token list" where
  "in_attribute_value_unquoted e n as an av c =
     (if is_space c then (BeforeAttributeName e n (add_attribute as an av), [])
      else if c = CHR ''&'' then (Unsupported, [])
      else if c = CHR ''>'' then emit_tag e n (add_attribute as an av)
      else (AttributeValueUnquoted e n as an (av @ [c]), []))"

definition in_before_attribute_value ::
    "bool \<Rightarrow> string \<Rightarrow> attributes \<Rightarrow> string \<Rightarrow> char \<Rightarrow> tokenizer \<times> token list" where
  "in_before_attribute_value e n as an c =
     (if is_space c then (BeforeAttributeValue e n as an, [])
      else if c = CHR 0x22 then (AttributeValueDoubleQuoted e n as an [], [])
      else if c = CHR 0x27 then (AttributeValueSingleQuoted e n as an [], [])
      else if c = CHR ''>'' then emit_tag e n (add_attribute as an [])
      else in_attribute_value_unquoted e n as an [] c)"

definition in_after_attribute_value_quoted ::
    "bool \<Rightarrow> string \<Rightarrow> attributes \<Rightarrow> char \<Rightarrow> tokenizer \<times> token list" where
  "in_after_attribute_value_quoted e n as c =
     (if is_space c then (BeforeAttributeName e n as, [])
      else if c = CHR ''/'' then (Unsupported, [])
      else if c = CHR ''>'' then emit_tag e n as
      else in_before_attribute_name e n as c)"

definition in_tag_name :: "bool \<Rightarrow> string \<Rightarrow> char \<Rightarrow> tokenizer \<times> token list" where
  "in_tag_name e n c =
     (if is_space c then (BeforeAttributeName e n [], [])
      else if c = CHR ''/'' then (Unsupported, [])
      else if c = CHR ''>'' then emit_tag e n []
      else (TagName e (n @ [lower c]), []))"

fun step :: "tokenizer \<Rightarrow> char \<Rightarrow> tokenizer \<times> token list" where
  "step Data c = (if c = CHR ''<'' then (TagOpen, []) else (Data, []))"
| "step TagOpen c =
     (if c = CHR ''/'' then (EndTagOpen, [])
      else if is_alpha c then in_tag_name False [] c
      else (Unsupported, []))"
| "step EndTagOpen c = (if is_alpha c then in_tag_name True [] c else (Unsupported, []))"
| "step (TagName e n) c = in_tag_name e n c"
| "step (BeforeAttributeName e n as) c = in_before_attribute_name e n as c"
| "step (AttributeName e n as an) c = in_attribute_name e n as an c"
| "step (AfterAttributeName e n as an) c = in_after_attribute_name e n as an c"
| "step (BeforeAttributeValue e n as an) c = in_before_attribute_value e n as an c"
| "step (AttributeValueDoubleQuoted e n as an av) c =
     (if c = CHR 0x22 then (AfterAttributeValueQuoted e n (add_attribute as an av), [])
      else if c = CHR ''&'' then (Unsupported, [])
      else (AttributeValueDoubleQuoted e n as an (av @ [c]), []))"
| "step (AttributeValueSingleQuoted e n as an av) c =
     (if c = CHR 0x27 then (AfterAttributeValueQuoted e n (add_attribute as an av), [])
      else if c = CHR ''&'' then (Unsupported, [])
      else (AttributeValueSingleQuoted e n as an (av @ [c]), []))"
| "step (AttributeValueUnquoted e n as an av) c = in_attribute_value_unquoted e n as an av c"
| "step (AfterAttributeValueQuoted e n as) c = in_after_attribute_value_quoted e n as c"
| "step Unsupported c = (Unsupported, [])"

text \<open>
  In the data state every character but \<^verbatim>\<open><\<close> is text, or belongs to a character
  reference, which yields text and never takes up a \<^verbatim>\<open><\<close>; NUL is dropped from the text
  and CR becomes a line feed.  Text makes no element, so the data state passes over all
  of these.  Inside a tag NUL and CR are replaced (by U+FFFD, by a line feed), which is
  not modelled.
\<close>

fun consume :: "tokenizer \<Rightarrow> char \<Rightarrow> tokenizer \<times> token list" where
  "consume Data c = step Data c"
| "consume s c = (if c = CHR 0x00 \<or> c = CHR 0x0D then (Unsupported, []) else step s c)"

fun run :: "tokenizer \<Rightarrow> token list \<Rightarrow> string \<Rightarrow> tokenizer \<times> token list" where
  "run s ts [] = (s, ts)"
| "run s ts (c # cs) = (case consume s c of (s', new) \<Rightarrow> run s' (ts @ new) cs)"

definition tokenize :: "string \<Rightarrow> token list option" where
  "tokenize html = (case run Data [] html of (Data, ts) \<Rightarrow> Some ts | _ \<Rightarrow> None)"

text \<open>
  Tree construction in the insertion mode "in body".  A start tag of the template's
  elements inserts one element, provided no open element would be closed implicitly
  first and no formatting element could be cloned later; an end tag must close the
  current node.  Under these conditions the elements of the fragment are the start
  tags, in document order.
\<close>

definition may_open :: "string \<Rightarrow> attributes \<Rightarrow> string list \<Rightarrow> bool" where
  "may_open name attrs stack =
     (if name \<in> set [''div'', ''p'', ''ul''] then ''p'' \<notin> set stack
      else if name \<in> set [''h4'', ''h5''] then
        ''p'' \<notin> set stack \<and> ''h4'' \<notin> set stack \<and> ''h5'' \<notin> set stack
      else if name = ''li'' then ''p'' \<notin> set stack \<and> ''li'' \<notin> set stack
      else if name = ''button'' then ''button'' \<notin> set stack
      else if name \<in> set [''em'', ''strong''] then attrs = []
      else name = ''span'')"

fun build :: "token list \<Rightarrow> string list \<Rightarrow> (string \<times> attributes) list option" where
  "build [] stack = (if stack = [] then Some [] else None)"
| "build (StartTag name attrs # ts) stack =
     (if may_open name attrs stack
      then map_option ((#) (name, attrs)) (build ts (name # stack))
      else None)"
| "build (EndTag name # ts) stack =
     (case stack of
        [] \<Rightarrow> None
      | current # below \<Rightarrow> if current = name then build ts below else None)"

text \<open>The class selector: the class attribute is split on ASCII whitespace.  A class
  that matches \<^verbatim>\<open>delete-btn\<close> only up to letter case matches in quirks mode alone, so
  such a fragment is given no meaning.\<close>

fun split_spaces :: "string \<Rightarrow> string \<Rightarrow> string list" where
  "split_spaces word [] = (if word = [] then [] else [word])"
| "split_spaces word (c # cs) =
     (if is_space c then (if word = [] then [] else [word]) @ split_spaces [] cs
      else split_spaces (word @ [c]) cs)"

definition class_list :: "attributes \<Rightarrow> string list" where
  "class_list attrs = (case map_of attrs ''class'' of None \<Rightarrow> [] | Some v \<Rightarrow> split_spaces [] v)"

fun select_delete_btn ::
    "(string \<times> attributes) list \<Rightarrow> attributes list option" where
  "select_delete_btn [] = Some []"
| "select_delete_btn ((name, attrs) # es) =
     (if ''delete-btn'' \<in> set (class_list attrs)
      then map_option ((#) attrs) (select_delete_btn es)
      else if ''delete-btn'' \<in> set (map (map lower) (class_list attrs)) then None
      else select_delete_btn es)"

text \<open>The removal controls of a card: for each element matching
  \<^verbatim>\<open>.delete-btn\<close>, what its click listener reads with
  \<^verbatim>\<open>getAttribute("data-capability")\<close> and \<^verbatim>\<open>getAttribute("data-email")\<close>
  (\<open>None\<close> for \<^verbatim>\<open>null\<close>).\<close>

definition parse_fragment :: "string \<Rightarrow> (string \<times> attributes) list option" where
  "parse_fragment html = Option.bind (tokenize html) (\<lambda>ts. build ts [])"

definition removal_controls :: "card \<Rightarrow> (string option \<times> string option) list option" where
  "removal_controls c =
     map_option
       (map (\<lambda>attrs. (map_of attrs ''data-capability'', map_of attrs ''data-email'')))
       (Option.bind (parse_fragment (card_innerHTML c)) select_delete_btn)"

section \<open>Well-formed stores\<close>

text \<open>Every reference held by the current snapshot was handed out by the allocator.
  The states the script reaches satisfy this (lemmas \<open>allocated_initial\<close> to
  \<open>allocated_UI_init\<close>).\<close>

definition allocated :: "world \<Rightarrow> bool" where
  "allocated w = (\<forall>a \<in> snd ` set (own_properties w (capabilities w)). a < next_ref w)"

section \<open>Example states\<close>

definition example_document :: document where
  "example_document =
     \<lparr>by_id_capabilities_list = Some [],
      by_id_capability = Some [placeholder_option],
      by_id_register_form = Some \<lparr>submit_listeners = 0\<rparr>,
      by_id_message = Some \<lparr>textContent = None, className = ''hidden'', hidden = True\<rparr>\<rparr>"

definition example_data :: "(string \<times> capability) list" where
  "example_data =
     [(''Data Migration'',
       \<lparr>description = ''Moving data'', practice_area = ''Cloud'',
        industry_verticals = None, capacity = Some 20, consultants = Some []\<rparr>),
      (''Security Review'',
       \<lparr>description = ''Audits'', practice_area = ''Security'',
        industry_verticals = Some [''Finance'', ''Health''], capacity = None,
        consultants = Some [''a@x.com'', ''b@x.com'', ''a@x.com'']\<rparr>)]"

definition example_world :: world where
  "example_world = snd (on_DOMContentLoaded example_document (Json True example_data) initial_world)"

definition formless_document :: document where
  "formless_document =
     \<lparr>by_id_capabilities_list = Some [],
      by_id_capability = Some [placeholder_option],
      by_id_register_form = None,
      by_id_message = Some \<lparr>textContent = None, className = ''hidden'', hidden = True\<rparr>\<rparr>"

definition form_only_document :: document where
  "form_only_document =
     \<lparr>by_id_capabilities_list = None,
      by_id_capability = None,
      by_id_register_form = Some \<lparr>submit_listeners = 0\<rparr>,
      by_id_message = None\<rparr>"

definition two_messages :: world where
  "two_messages =
     showMessage (Some ''second'') ''error''
       (advance_to 3000
          (showMessage (Some ''first'') ''success''
             (snd (UI_init example_document initial_world))))"




definition markup_details :: capability where
  "markup_details =
     \<lparr>description = ''<button class=delete-btn>x</button>'', practice_area = ''Cloud'',
      industry_verticals = None, capacity = Some 20, consultants = Some []\<rparr>"

section \<open>Cards whose values are inert\<close>

text \<open>
  The template puts the description, the practice area and the industry verticals into
  the text of an element only; such a string is inert there when it has no \<^verbatim>\<open><\<close>.  The
  capability name and the emails also go into double-quoted attribute values; such a
  string is inert when it has, besides, no double quote, which ends the value, and none
  of \<^verbatim>\<open>&\<close>, NUL and CR, which the parser replaces inside a value.  For a card with inert
  values, the tokens of its markup and the elements of a list item are as follows.
\<close>

definition text_inert :: "string \<Rightarrow> bool" where
  "text_inert s \<longleftrightarrow> CHR ''<'' \<notin> set s"








section \<open>Properties\<close>

subsection \<open>What the UI methods leave unchanged\<close>

lemma foldl_snoc_map: "foldl (\<lambda>acc x. acc @ [f x]) init xs = init @ map f xs"
  by (induction xs arbitrary: init) simp_all

lemma showMessage_frame [simp]:
  "objects (showMessage m t w) = objects w"
  "snapshots (showMessage m t w) = snapshots w"
  "next_ref (showMessage m t w) = next_ref w"
  "capabilities (showMessage m t w) = capabilities w"
  "console (showMessage m t w) = console w"
  "clock (showMessage m t w) = clock w"
  by (simp_all add: showMessage_def split: option.splits)

lemma showMessage_elements [simp]:
  "capabilitiesList (elements (showMessage m t w)) = capabilitiesList (elements w)"
  "capabilitySelect (elements (showMessage m t w)) = capabilitySelect (elements w)"
  "registerForm (elements (showMessage m t w)) = registerForm (elements w)"
  by (simp_all add: showMessage_def split: option.splits)

lemma renderCapabilities_frame [simp]:
  "objects (renderCapabilities c w) = objects w"
  "snapshots (renderCapabilities c w) = snapshots w"
  "next_ref (renderCapabilities c w) = next_ref w"
  "capabilities (renderCapabilities c w) = capabilities w"
  "console (renderCapabilities c w) = console w"
  "clock (renderCapabilities c w) = clock w"
  "timers (renderCapabilities c w) = timers w"
  "capabilitySelect (elements (renderCapabilities c w)) = capabilitySelect (elements w)"
  "registerForm (elements (renderCapabilities c w)) = registerForm (elements w)"
  "messageDiv (elements (renderCapabilities c w)) = messageDiv (elements w)"
  by (simp_all add: renderCapabilities_def split: option.splits)

lemma renderCapabilitySelect_frame [simp]:
  "objects (renderCapabilitySelect c w) = objects w"
  "snapshots (renderCapabilitySelect c w) = snapshots w"
  "next_ref (renderCapabilitySelect c w) = next_ref w"
  "capabilities (renderCapabilitySelect c w) = capabilities w"
  "console (renderCapabilitySelect c w) = console w"
  "clock (renderCapabilitySelect c w) = clock w"
  "timers (renderCapabilitySelect c w) = timers w"
  "capabilitiesList (elements (renderCapabilitySelect c w)) = capabilitiesList (elements w)"
  "registerForm (elements (renderCapabilitySelect c w)) = registerForm (elements w)"
  "messageDiv (elements (renderCapabilitySelect c w)) = messageDiv (elements w)"
  by (simp_all add: renderCapabilitySelect_def split: option.splits)

lemma render_frame [simp]:
  "objects (render w) = objects w"
  "snapshots (render w) = snapshots w"
  "next_ref (render w) = next_ref w"
  "capabilities (render w) = capabilities w"
  "console (render w) = console w"
  "clock (render w) = clock w"
  "timers (render w) = timers w"
  "registerForm (elements (render w)) = registerForm (elements w)"
  "messageDiv (elements (render w)) = messageDiv (elements w)"
  by (simp_all add: render_def)

lemma console_error_frame [simp]:
  "objects (console_error l e w) = objects w"
  "snapshots (console_error l e w) = snapshots w"
  "next_ref (console_error l e w) = next_ref w"
  "capabilities (console_error l e w) = capabilities w"
  "elements (console_error l e w) = elements w"
  "clock (console_error l e w) = clock w"
  "timers (console_error l e w) = timers w"
  "console (console_error l e w) = console w @ [(l, e)]"
  by (simp_all add: console_error_def)

subsection \<open>Lookups depend on the store and the snapshot reference only\<close>

lemma lookup_ref_cong:
  "snapshots w' = snapshots w \<Longrightarrow> capabilities w' = capabilities w \<Longrightarrow>
   lookup_ref w' k = lookup_ref w k"
  by (simp add: lookup_ref_def own_properties_def)

lemma lookup_capability_cong:
  "objects w' = objects w \<Longrightarrow> snapshots w' = snapshots w \<Longrightarrow>
   capabilities w' = capabilities w \<Longrightarrow> lookup_capability w' k = lookup_capability w k"
  by (simp add: lookup_capability_def lookup_ref_def own_properties_def split: option.splits)

lemma target_consultants_cong:
  "objects w' = objects w \<Longrightarrow> snapshots w' = snapshots w \<Longrightarrow>
   capabilities w' = capabilities w \<Longrightarrow> target_consultants w' k = target_consultants w k"
  by (simp add: target_consultants_def lookup_capability_cong [of w' w])

subsection \<open>The assignment of a new consultants array\<close>

lemma map_of_set_property:
  "map_of (set_property k v es) k' = (if k' = k then Some v else map_of es k')"
  by (induction es) auto

lemma keys_set_property:
  "map fst (set_property k v es) =
     (if k \<in> set (map fst es) then map fst es else map fst es @ [k])"
  by (induction es) (fastforce simp: image_iff)+

lemma lookup_ref_allocated:
  "allocated w \<Longrightarrow> lookup_ref w k = Some a \<Longrightarrow> a < next_ref w"
  unfolding allocated_def lookup_ref_def
  by (auto dest!: map_of_SomeD)

lemma assign_lookup_ref:
  assumes "lookup_capability w capability = Some details"
  shows "lookup_ref (assign_consultants capability cs w) k =
         (if k = capability then Some (next_ref w) else lookup_ref w k)"
  using assms
  by (simp add: assign_consultants_def Let_def lookup_ref_def own_properties_def
      map_of_set_property)

lemma assign_objects:
  assumes "lookup_capability w capability = Some details"
  shows "objects (assign_consultants capability cs w) =
         (objects w)(next_ref w \<mapsto> details\<lparr>consultants := Some cs\<rparr>)"
  using assms by (simp add: assign_consultants_def Let_def)

lemma assign_lookup_capability:
  assumes "lookup_capability w capability = Some details" and "allocated w"
  shows "lookup_capability (assign_consultants capability cs w) k =
         (if k = capability then Some (details\<lparr>consultants := Some cs\<rparr>)
          else lookup_capability w k)"
proof (cases "k = capability")
  case True
  then show ?thesis
    using assms(1) by (simp add: lookup_capability_def assign_lookup_ref assign_objects)
next
  case False
  show ?thesis
  proof (cases "lookup_ref w k")
    case None
    with False assms(1) show ?thesis
      by (simp add: lookup_capability_def assign_lookup_ref)
  next
    case (Some a)
    then have "a \<noteq> next_ref w"
      using lookup_ref_allocated [OF assms(2) Some] by simp
    with False Some assms(1) show ?thesis
      by (simp add: lookup_capability_def assign_lookup_ref assign_objects)
  qed
qed

subsection \<open>The example state\<close>

lemma example_world_store:
  "capabilities example_world = 3"
  "next_ref example_world = 4"
  "snapshots example_world 3 = Some [(''Data Migration'', Suc 0), (''Security Review'', 2)]"
  "objects example_world (Suc 0) = Some (snd (example_data ! 0))"
  "objects example_world 2 = Some (snd (example_data ! 1))"
  by (simp_all add: example_world_def on_DOMContentLoaded_def UI_init_def AppState_init_def
      fetchCapabilities_def fetchCapabilities_try_def assign_snapshot_def example_data_def
      initial_world_def example_document_def Let_def)

lemma example_world_allocated: "allocated example_world"
  by (simp add: allocated_def own_properties_def example_world_store)

lemma example_lookup:
  "lookup_capability example_world ''Security Review'' = Some (snd (example_data ! 1))"
  "lookup_capability example_world ''Data Migration'' = Some (snd (example_data ! 0))"
  "lookup_ref example_world ''Data Migration'' = Some (Suc 0)"
  "lookup_ref example_world ''Nothing'' = None"
  by (simp_all add: lookup_capability_def lookup_ref_def own_properties_def example_world_store)

subsection \<open>The write methods\<close>

lemma target_consultants_Inr:
  "target_consultants w capability = Inr cs \<longleftrightarrow>
   (\<exists>details. lookup_capability w capability = Some details \<and> consultants details = Some cs)"
  by (auto simp: target_consultants_def split: option.splits)

lemma target_consultants_absent:
  "lookup_ref w capability = None \<Longrightarrow> target_consultants w capability = Inl TypeError"
  by (simp add: target_consultants_def lookup_capability_def)

lemma registerConsultant_ok:
  assumes "lookup_capability w capability = Some details" and "consultants details = Some cs"
  shows "registerConsultant capability email (Json True r) w =
         (Inr True, showMessage (message r) ''success''
                      (render (assign_consultants capability (cs @ [email]) w)))"
  using assms
  by (simp add: registerConsultant_def registerConsultant_try_def target_consultants_def)

lemma unregisterConsultant_ok:
  assumes "lookup_capability w capability = Some details" and "consultants details = Some cs"
  shows "unregisterConsultant capability email (Json True r) w =
         (Inr (), showMessage (message r) ''success''
                    (render (assign_consultants capability (filter (\<lambda>c. c \<noteq> email) cs) w)))"
  using assms
  by (simp add: unregisterConsultant_def unregisterConsultant_try_def target_consultants_def)

lemma lookup_after_write:
  "lookup_capability (showMessage m t (render w)) k = lookup_capability w k"
  "lookup_ref (showMessage m t (render w)) k = lookup_ref w k"
  by (rule lookup_capability_cong; simp) (rule lookup_ref_cong; simp)

lemma assign_lookup_target:
  assumes "lookup_capability w capability = Some details"
  shows "lookup_capability (assign_consultants capability cs w) capability =
         Some (details\<lparr>consultants := Some cs\<rparr>)"
  using assms by (simp add: lookup_capability_def assign_lookup_ref assign_objects)

text \<open>
  Claim C1.  After a successful \<^verbatim>\<open>registerConsultant(cap, email)\<close> (the response is ok)
  on a snapshot that has \<open>cap\<close> with a consultants sequence \<open>cs\<close>, the call returns
  \<^verbatim>\<open>true\<close>, the capability found under \<open>cap\<close> in the new snapshot is the old one with
  consultants \<open>cs @ [email]\<close> (the email appended once, at the end), and every other
  key holds the same reference as before, to an object that was not changed.
\<close>

theorem registerConsultant_appends:
  assumes "allocated w"
    and "lookup_capability w cap = Some details"
    and "consultants details = Some cs"
  shows "case registerConsultant cap email (Json True r) w of
           (returned, w') \<Rightarrow>
             returned = Inr True \<and>
             lookup_capability w' cap = Some (details\<lparr>consultants := Some (cs @ [email])\<rparr>) \<and>
             (\<forall>other. other \<noteq> cap \<longrightarrow>
                lookup_ref w' other = lookup_ref w other \<and>
                lookup_capability w' other = lookup_capability w other)"
  using assms
  by (simp add: registerConsultant_ok lookup_after_write assign_lookup_capability
      assign_lookup_ref)

theorem registerConsultant_appends_witness:
  "case registerConsultant ''Security Review'' ''c@x.com'' (Json True \<lparr>message = Some ''Registered'', detail = None\<rparr>)
          example_world of
     (returned, w') \<Rightarrow>
       returned = Inr True \<and>
       target_consultants w' ''Security Review'' =
         Inr [''a@x.com'', ''b@x.com'', ''a@x.com'', ''c@x.com''] \<and>
       lookup_ref w' ''Data Migration'' = lookup_ref example_world ''Data Migration'' \<and>
       lookup_capability w' ''Data Migration'' = lookup_capability example_world ''Data Migration''"
  using registerConsultant_appends [OF example_world_allocated example_lookup(1),
      of "[''a@x.com'', ''b@x.com'', ''a@x.com'']" "''c@x.com''"
         "\<lparr>message = Some ''Registered'', detail = None\<rparr>"]
  by (auto simp: example_data_def target_consultants_def split: prod.splits)

lemma filter_neq_removeAll: "filter (\<lambda>c. c \<noteq> email) cs = removeAll email cs"
  by (induction cs) auto

lemma allocate_frame [simp]:
  "elements (snd (allocate data w)) = elements w"
  "snapshots (snd (allocate data w)) = snapshots w"
  "capabilities (snd (allocate data w)) = capabilities w"
  "console (snd (allocate data w)) = console w"
  "clock (snd (allocate data w)) = clock w"
  "timers (snd (allocate data w)) = timers w"
  by (induction data w rule: allocate.induct; simp add: Let_def case_prod_unfold)+

lemma assign_snapshot_frame [simp]:
  "elements (assign_snapshot data w) = elements w"
  "console (assign_snapshot data w) = console w"
  "clock (assign_snapshot data w) = clock w"
  "timers (assign_snapshot data w) = timers w"
  by (simp_all add: assign_snapshot_def Let_def case_prod_unfold)

lemma render_select_bound:
  "capabilitySelect (elements (render w)) = None \<longleftrightarrow> capabilitySelect (elements w) = None"
  by (simp add: render_def renderCapabilitySelect_def split: option.splits)

lemma example_world_elements:
  "capabilitySelect (elements example_world) \<noteq> None"
  "messageDiv (elements example_world) =
     Some \<lparr>textContent = None, className = ''hidden'', hidden = True\<rparr>"
  by (simp_all add: example_world_def on_DOMContentLoaded_def UI_init_def AppState_init_def
      fetchCapabilities_def fetchCapabilities_try_def example_document_def Let_def
      render_select_bound)

text \<open>
  Claim C2.  After a successful \<^verbatim>\<open>unregisterConsultant(cap, email)\<close> on a snapshot that
  has \<open>cap\<close> with a consultants sequence \<open>cs\<close>, the consultants of \<open>cap\<close> in the new
  snapshot are \<open>cs\<close> with every element equal to \<open>email\<close> removed.
\<close>

theorem unregisterConsultant_removes:
  assumes "lookup_capability w cap = Some details"
    and "consultants details = Some cs"
  shows "lookup_capability (snd (unregisterConsultant cap email (Json True r) w)) cap =
         Some (details\<lparr>consultants := Some (removeAll email cs)\<rparr>)"
  using assms
  by (simp add: unregisterConsultant_ok lookup_after_write assign_lookup_target
      filter_neq_removeAll)

theorem unregisterConsultant_removes_witness:
  "target_consultants
     (snd (unregisterConsultant ''Security Review'' ''a@x.com''
             (Json True \<lparr>message = Some ''Unregistered'', detail = None\<rparr>) example_world))
     ''Security Review'' = Inr [''b@x.com'']"
  using unregisterConsultant_removes [OF example_lookup(1),
      of "[''a@x.com'', ''b@x.com'', ''a@x.com'']" "''a@x.com''"
         "\<lparr>message = Some ''Unregistered'', detail = None\<rparr>"]
  by (simp add: example_data_def target_consultants_def)

text \<open>
  Claim C3.  On a response that is not ok, \<^verbatim>\<open>registerConsultant\<close> returns \<^verbatim>\<open>false\<close>, and
  both \<^verbatim>\<open>registerConsultant\<close> and \<^verbatim>\<open>unregisterConsultant\<close> leave
  \<^verbatim>\<open>AppState.capabilities\<close> referring to the same snapshot object, with no object of
  the store changed or added.
\<close>

theorem non_2xx_keeps_snapshot:
  "(case registerConsultant cap email (Json False r) w of
      (returned, w') \<Rightarrow>
        returned = Inr False \<and> capabilities w' = capabilities w \<and>
        snapshots w' = snapshots w \<and> objects w' = objects w) \<and>
   (case unregisterConsultant cap email (Json False r) w of
      (returned, w') \<Rightarrow>
        returned = Inr () \<and> capabilities w' = capabilities w \<and>
        snapshots w' = snapshots w \<and> objects w' = objects w)"
  by (simp add: registerConsultant_def registerConsultant_try_def unregisterConsultant_def
      unregisterConsultant_try_def)

text \<open>
  Claim C9.  When the response is ok but \<open>cap\<close> is not a key of the client snapshot,
  the \<^verbatim>\<open>TypeError\<close> raised in the \<^verbatim>\<open>try\<close> block is caught by the method: the call
  completes normally with \<^verbatim>\<open>false\<close>, the snapshot and the store are unchanged, the error
  is logged, and the message area (when there is one) shows the generic failure text.
\<close>

theorem registerConsultant_unknown_capability:
  assumes "lookup_ref w cap = None"
  shows "case registerConsultant cap email (Json True r) w of
           (returned, w') \<Rightarrow>
             returned = Inr False \<and> capabilities w' = capabilities w \<and>
             snapshots w' = snapshots w \<and> objects w' = objects w \<and>
             console w' = console w @ [(''Error registering:'', TypeError)] \<and>
             messageDiv (elements w') =
               map_option (\<lambda>_. \<lparr>textContent = Some ''Failed to register. Please try again.'',
                                 className = ''error'', hidden = False\<rparr>)
                 (messageDiv (elements w))"
  using assms
  by (simp add: registerConsultant_def registerConsultant_try_def target_consultants_absent
      showMessage_def split: option.splits)

theorem registerConsultant_unknown_capability_witness:
  "case registerConsultant ''Nothing'' ''c@x.com''
          (Json True \<lparr>message = Some ''Registered'', detail = None\<rparr>) example_world of
     (returned, w') \<Rightarrow>
       returned = Inr False \<and> capabilities w' = capabilities example_world \<and>
       snapshots w' = snapshots example_world \<and> objects w' = objects example_world \<and>
       messageDiv (elements w') =
         Some \<lparr>textContent = Some ''Failed to register. Please try again.'',
               className = ''error'', hidden = False\<rparr>"
  using registerConsultant_unknown_capability [OF example_lookup(4), of "''c@x.com''"
      "\<lparr>message = Some ''Registered'', detail = None\<rparr>"]
  by (auto simp: example_world_elements split: prod.splits)

text \<open>The same handler runs when the capability is there but has no \<^verbatim>\<open>consultants\<close>
  member: spreading \<^verbatim>\<open>undefined\<close> into the array literal throws.\<close>

lemma registerConsultant_without_consultants:
  assumes "lookup_capability w cap = Some details" and "consultants details = None"
  shows "case registerConsultant cap email (Json True r) w of
           (returned, w') \<Rightarrow>
             returned = Inr False \<and> capabilities w' = capabilities w \<and>
             snapshots w' = snapshots w \<and> objects w' = objects w"
  using assms
  by (simp add: registerConsultant_def registerConsultant_try_def target_consultants_def)

text \<open>
  Claim C10.  When the consultants \<open>cs\<close> of \<open>cap\<close> do not contain \<open>email\<close>, a successful
  \<^verbatim>\<open>registerConsultant(cap, email)\<close> followed by a successful
  \<^verbatim>\<open>unregisterConsultant(cap, email)\<close> leaves \<open>cap\<close> with the consultants \<open>cs\<close>.
\<close>

theorem register_unregister_roundtrip:
  assumes "lookup_capability w cap = Some details"
    and "consultants details = Some cs"
    and "email \<notin> set cs"
  shows "target_consultants
           (snd (unregisterConsultant cap email (Json True r')
                  (snd (registerConsultant cap email (Json True r) w)))) cap = Inr cs"
proof -
  let ?w1 = "snd (registerConsultant cap email (Json True r) w)"
  have 1: "lookup_capability ?w1 cap = Some (details\<lparr>consultants := Some (cs @ [email])\<rparr>)"
    using assms(1,2) by (simp add: registerConsultant_ok lookup_after_write assign_lookup_target)
  have 2: "filter (\<lambda>c. c \<noteq> email) (cs @ [email]) = cs"
    using assms(3) by (induction cs) auto
  have "lookup_capability (snd (unregisterConsultant cap email (Json True r') ?w1)) cap =
        Some (details\<lparr>consultants := Some cs\<rparr>)"
    using unregisterConsultant_ok [OF 1, of "cs @ [email]" email r'] 2
    by (simp add: lookup_after_write assign_lookup_target [OF 1])
  then show ?thesis
    by (simp add: target_consultants_def)
qed

theorem register_unregister_roundtrip_witness:
  "target_consultants
     (snd (unregisterConsultant ''Data Migration'' ''c@x.com'' (Json True \<lparr>message = None, detail = None\<rparr>)
            (snd (registerConsultant ''Data Migration'' ''c@x.com''
                    (Json True \<lparr>message = None, detail = None\<rparr>) example_world))))
     ''Data Migration'' = Inr []"
  using register_unregister_roundtrip [OF example_lookup(2), of "[]" "''c@x.com''"]
  by (simp add: example_data_def)

subsection \<open>Rendering the selector\<close>

text \<open>
  Claim C6.  With the selector bound, \<^verbatim>\<open>renderCapabilitySelect(S)\<close> leaves in it exactly
  the placeholder option (empty value) followed by one option per key of \<open>S\<close>, in the
  key order of \<open>S\<close>, each with the capability name as value and as label.
\<close>

theorem renderCapabilitySelect_options:
  assumes "capabilitySelect (elements w) \<noteq> None"
  shows "capabilitySelect (elements (renderCapabilitySelect S w)) =
         Some (\<lparr>option_value = [], option_textContent = ''-- Select a capability --''\<rparr> #
               map (\<lambda>name. \<lparr>option_value = name, option_textContent = name\<rparr>)
                 (object_keys w S))"
  using assms
  by (auto simp: renderCapabilitySelect_def foldl_snoc_map placeholder_option_def)

theorem renderCapabilitySelect_options_witness:
  "capabilitySelect (elements (renderCapabilitySelect 3 example_world)) =
     Some [\<lparr>option_value = [], option_textContent = ''-- Select a capability --''\<rparr>,
           \<lparr>option_value = ''Data Migration'', option_textContent = ''Data Migration''\<rparr>,
           \<lparr>option_value = ''Security Review'', option_textContent = ''Security Review''\<rparr>]"
proof -
  from renderCapabilitySelect_options [OF example_world_elements(1), of 3] show ?thesis
    by (simp add: object_keys_def own_properties_def example_world_store)
qed

subsection \<open>Failures of the initial fetch\<close>

text \<open>
  Claim C8.  When the request of \<^verbatim>\<open>fetchCapabilities\<close> fails (the fetch rejects, or the
  body is not JSON), the method completes normally, logs one entry, replaces the content
  of the capability list (when bound) by the generic error paragraph, and leaves the
  snapshot as it was; called from \<^verbatim>\<open>init()\<close> after the page was loaded, the snapshot
  is still the initial empty object.
\<close>

theorem fetchCapabilities_failure:
  assumes "outcome = FetchRejected \<or> outcome = BodyRejected"
  shows "(case fetchCapabilities outcome w of
            (completion, w') \<Rightarrow>
              completion = Inr () \<and>
              (\<exists>error. console w' = console w @ [(''Error fetching capabilities:'', error)]) \<and>
              capabilitiesList (elements w') =
                map_option (\<lambda>_. [Markup ''<p>Failed to load capabilities. Please try again later.</p>''])
                  (capabilitiesList (elements w)) \<and>
              capabilities w' = capabilities w \<and> snapshots w' = snapshots w \<and>
              objects w' = objects w) \<and>
         (case AppState_init outcome (snd (UI_init doc initial_world)) of
            (completion, w') \<Rightarrow>
              completion = Inr () \<and> capabilities w' = capabilities initial_world \<and>
              own_properties w' (capabilities w') = [])"
  using assms
  by (auto simp: fetchCapabilities_def fetchCapabilities_try_def showError_def
      AppState_init_def UI_init_def Let_def own_properties_def initial_world_def
      split: option.splits)

theorem fetchCapabilities_failure_witness:
  "(case fetchCapabilities BodyRejected example_world of
      (completion, w') \<Rightarrow>
        completion = Inr () \<and>
        console w' = [(''Error fetching capabilities:'', SyntaxError)] \<and>
        capabilitiesList (elements w') =
          Some [Markup ''<p>Failed to load capabilities. Please try again later.</p>''] \<and>
        capabilities w' = capabilities example_world) \<and>
   (case AppState_init FetchRejected (snd (UI_init example_document initial_world)) of
      (completion, w') \<Rightarrow> completion = Inr () \<and> own_properties w' (capabilities w') = [])"
  using fetchCapabilities_failure [of BodyRejected example_world example_document]
    fetchCapabilities_failure [of FetchRejected example_world example_document]
  by (auto simp: fetchCapabilities_def fetchCapabilities_try_def showError_def
      example_world_def on_DOMContentLoaded_def AppState_init_def UI_init_def Let_def
      example_document_def initial_world_def render_def renderCapabilities_def
      renderCapabilitySelect_def split: prod.splits option.splits)

subsection \<open>Binding the handles\<close>

text \<open>
  Claim C4.  \<^verbatim>\<open>UI.init()\<close> is claimed never to throw on partial page markup.  On a page
  that has the other three anchors but no registration form,
  \<^verbatim>\<open>this.elements.registerForm.addEventListener\<close> is called on \<^verbatim>\<open>null\<close>: \<^verbatim>\<open>UI.init()\<close>
  throws a \<^verbatim>\<open>TypeError\<close>, and the \<^verbatim>\<open>DOMContentLoaded\<close> listener ends there, before
  \<^verbatim>\<open>AppState.init()\<close>.
\<close>

theorem UI_init_throws_without_form:
  "fst (UI_init formless_document initial_world) = Inl TypeError \<and>
   fst (on_DOMContentLoaded formless_document (Json True example_data) initial_world) =
     Inl TypeError \<and>
   capabilities (snd (on_DOMContentLoaded formless_document (Json True example_data)
                        initial_world)) = capabilities initial_world"
  by (simp add: on_DOMContentLoaded_def UI_init_def formless_document_def Let_def)

text \<open>
  The rest of what claim C4 says does hold.  \<^verbatim>\<open>UI.init()\<close> binds each handle to the
  element found, \<^verbatim>\<open>null\<close> when the anchor is absent; it completes normally when the
  registration form is present, whichever of the other three anchors are absent; and
  each of \<^verbatim>\<open>renderCapabilities\<close>, \<^verbatim>\<open>showError\<close>, \<^verbatim>\<open>renderCapabilitySelect\<close> and
  \<^verbatim>\<open>showMessage\<close> leaves the state unchanged when its target handle is \<^verbatim>\<open>null\<close>.
\<close>

lemma UI_init_binds_handles:
  "(case UI_init doc w of
      (completion, w') \<Rightarrow>
        capabilitiesList (elements w') = by_id_capabilities_list doc \<and>
        capabilitySelect (elements w') = by_id_capability doc \<and>
        messageDiv (elements w') = by_id_message doc \<and>
        (by_id_register_form doc = None \<longrightarrow>
           registerForm (elements w') = None \<and> completion = Inl TypeError) \<and>
        (by_id_register_form doc \<noteq> None \<longrightarrow> completion = Inr ())) \<and>
   (capabilitiesList (elements w) = None \<longrightarrow>
      renderCapabilities caps w = w \<and> showError text w = w) \<and>
   (capabilitySelect (elements w) = None \<longrightarrow> renderCapabilitySelect caps w = w) \<and>
   (messageDiv (elements w) = None \<longrightarrow> showMessage msg type w = w)"
  by (auto simp: UI_init_def Let_def renderCapabilities_def showError_def
      renderCapabilitySelect_def showMessage_def split: option.splits)

lemma UI_init_binds_handles_example:
  "(case UI_init form_only_document initial_world of
      (completion, w') \<Rightarrow>
        completion = Inr () \<and>
        capabilitiesList (elements w') = None \<and> capabilitySelect (elements w') = None \<and>
        messageDiv (elements w') = None) \<and>
   renderCapabilities 0 initial_world = initial_world \<and>
   showError ''Failed'' initial_world = initial_world \<and>
   renderCapabilitySelect 0 initial_world = initial_world \<and>
   showMessage (Some ''Done'') ''success'' initial_world = initial_world"
  using UI_init_binds_handles [of form_only_document initial_world 0 "''Failed''"
      "Some ''Done''" "''success''"]
  by (auto simp: form_only_document_def initial_world_def split: prod.splits)

subsection \<open>The message timer\<close>

lemma hide_message_div:
  "messageDiv (elements (hide_message w)) =
     map_option (\<lambda>m. m\<lparr>hidden := True\<rparr>) (messageDiv (elements w))"
  by (simp add: hide_message_def split: option.splits)

lemma hide_message_fold:
  "messageDiv (elements (foldl (\<lambda>w' due. hide_message w') w dues)) =
     (if dues = [] then messageDiv (elements w)
      else map_option (\<lambda>m. m\<lparr>hidden := True\<rparr>) (messageDiv (elements w)))"
proof (induction dues arbitrary: w)
  case Nil
  then show ?case by simp
next
  case (Cons d dues)
  show ?case
    by (cases "messageDiv (elements w)") (simp_all add: Cons.IH hide_message_div)
qed

text \<open>
  Claim C5, amended.  With the message area bound, \<^verbatim>\<open>showMessage\<close> makes it visible at
  once and schedules a hide 5000 ms later, without cancelling the hides that earlier
  calls scheduled.  At a later time \<open>t\<close> the area shows the message, and it is hidden
  exactly when one of the pending hides, an earlier one or its own, was due by \<open>t\<close>.
\<close>

theorem showMessage_schedules_hide:
  assumes "messageDiv (elements w) \<noteq> None"
  shows "messageDiv (elements (showMessage msg type w)) =
           Some \<lparr>textContent = msg, className = type, hidden = False\<rparr> \<and>
         messageDiv (elements (advance_to t (showMessage msg type w))) =
           Some \<lparr>textContent = msg, className = type,
                 hidden = (\<exists>due \<in> set (timers w @ [clock w + 5000]). due \<le> t)\<rparr>"
  using assms
  by (auto simp: advance_to_def hide_message_fold showMessage_def filter_empty_conv)

text \<open>
  Claim C5 as stated fails: a second message shown 3000 ms after a first one is hidden
  when the timer of the first call fires, 2000 ms after it was shown.
\<close>

theorem second_message_hidden_early:
  "clock two_messages = 3000 \<and>
   messageDiv (elements two_messages) =
     Some \<lparr>textContent = Some ''second'', className = ''error'', hidden = False\<rparr> \<and>
   messageDiv (elements (advance_to 5000 two_messages)) =
     Some \<lparr>textContent = Some ''second'', className = ''error'', hidden = True\<rparr>"
  by (simp add: two_messages_def advance_to_def showMessage_def hide_message_def UI_init_def
      example_document_def initial_world_def Let_def)

theorem showMessage_schedules_hide_witness:
  "messageDiv (elements (advance_to 4999 (showMessage (Some ''Registered'') ''success'' example_world))) =
     Some \<lparr>textContent = Some ''Registered'', className = ''success'', hidden = False\<rparr> \<and>
   messageDiv (elements (advance_to 5000 (showMessage (Some ''Registered'') ''success'' example_world))) =
     Some \<lparr>textContent = Some ''Registered'', className = ''success'', hidden = True\<rparr>"
proof -
  have h: "messageDiv (elements example_world) \<noteq> None"
    by (simp add: example_world_elements)
  have t: "timers example_world = []" "clock example_world = 0"
    by (simp_all add: example_world_def on_DOMContentLoaded_def UI_init_def AppState_init_def
        fetchCapabilities_def fetchCapabilities_try_def Let_def initial_world_def
        example_document_def)
  show ?thesis
    using showMessage_schedules_hide [OF h, of "Some ''Registered''" "''success''" 4999]
      showMessage_schedules_hide [OF h, of "Some ''Registered''" "''success''" 5000]
    by (simp add: t)
qed

subsection \<open>The store invariant\<close>

lemma allocated_cong:
  "snapshots w' = snapshots w \<Longrightarrow> capabilities w' = capabilities w \<Longrightarrow>
   next_ref w' = next_ref w \<Longrightarrow> allocated w' = allocated w"
  by (simp add: allocated_def own_properties_def)

lemma allocated_initial: "allocated initial_world"
  by (simp add: allocated_def own_properties_def initial_world_def)

lemma set_property_member:
  "(k', a) \<in> set (set_property k v es) \<Longrightarrow> a = v \<or> (k', a) \<in> set es"
  by (induction es) (auto split: if_splits)

lemma set_property_refs: "snd ` set (set_property k v es) \<subseteq> insert v (snd ` set es)"
  using set_property_member by fastforce

lemma allocated_assign_consultants:
  assumes "allocated w"
  shows "allocated (assign_consultants capability cs w)"
proof (cases "lookup_capability w capability")
  case None
  with assms show ?thesis by (simp add: assign_consultants_def)
next
  case (Some details)
  have "a < Suc (Suc (next_ref w))"
    if "a \<in> snd ` set (set_property capability (next_ref w) (own_properties w (capabilities w)))"
    for a
  proof -
    from that set_property_refs
    have "a = next_ref w \<or> a \<in> snd ` set (own_properties w (capabilities w))"
      by blast
    with assms show ?thesis
      by (auto simp: allocated_def)
  qed
  with Some show ?thesis
    by (simp add: allocated_def assign_consultants_def Let_def own_properties_def)
qed

lemma allocate_refs:
  "next_ref w \<le> next_ref (snd (allocate data w)) \<and>
   (\<forall>a \<in> snd ` set (fst (allocate data w)). a < next_ref (snd (allocate data w)))"
proof (induction data w rule: allocate.induct)
  case (1 w)
  show ?case by simp
next
  case (2 name details rest w)
  then show ?case
    by (auto simp: Let_def case_prod_unfold)
qed

lemma allocated_assign_snapshot: "allocated (assign_snapshot data w)"
  using allocate_refs [of w data]
  by (auto simp: allocated_def assign_snapshot_def Let_def case_prod_unfold own_properties_def)

lemma showError_frame [simp]:
  "objects (showError m w) = objects w"
  "snapshots (showError m w) = snapshots w"
  "next_ref (showError m w) = next_ref w"
  "capabilities (showError m w) = capabilities w"
  "console (showError m w) = console w"
  by (simp_all add: showError_def split: option.splits)

lemma allocated_after_write:
  "allocated (showMessage m t w) = allocated w"
  "allocated (render w) = allocated w"
  "allocated (console_error l e w) = allocated w"
  "allocated (showError text w) = allocated w"
  by (rule allocated_cong; simp)+

lemma allocated_registerConsultant:
  "allocated w \<Longrightarrow> allocated (snd (registerConsultant capability email outcome w))"
  by (auto simp: registerConsultant_def registerConsultant_try_def allocated_after_write
      allocated_assign_consultants split: response.splits sum.splits)

lemma allocated_unregisterConsultant:
  "allocated w \<Longrightarrow> allocated (snd (unregisterConsultant capability email outcome w))"
  by (auto simp: unregisterConsultant_def unregisterConsultant_try_def allocated_after_write
      allocated_assign_consultants split: response.splits sum.splits)

lemma allocated_fetchCapabilities:
  "allocated w \<Longrightarrow> allocated (snd (fetchCapabilities outcome w))"
  by (auto simp: fetchCapabilities_def fetchCapabilities_try_def allocated_after_write
      allocated_assign_snapshot split: response.splits)

lemma allocated_UI_init: "allocated w \<Longrightarrow> allocated (snd (UI_init doc w))"
  by (auto simp: UI_init_def Let_def allocated_def own_properties_def split: option.splits)

subsection \<open>Tokenizing the markup of a card\<close>











lemma text_inert_append [simp]: "text_inert (a @ b) \<longleftrightarrow> text_inert a \<and> text_inert b"
  by (auto simp: text_inert_def)

lemma text_inert_Nil [simp]: "text_inert []"
  by (simp add: text_inert_def)





subsection \<open>The elements and the removal controls of a card\<close>

lemma map_option_append_Nil: "map_option ((@) []) x = x"
  by (cases x) simp_all

lemma map_option_append_append:
  "map_option ((@) a) (map_option ((@) b) x) = map_option ((@) (a @ b)) x"
  by (cases x) simp_all












text \<open>The restriction on the text fields is needed: a description that is a button of
  the class \<^verbatim>\<open>delete-btn\<close> gives a card without consultants a removal control, one that
  carries no capability and no email.\<close>

lemma markup_in_description_adds_control:
  "consultants markup_details = Some [] \<and>
   removal_controls (createCapabilityCard ''Data Migration'' markup_details) =
     Some [(None, None)]"
  by code_simp


end
